theory Spec2Isabelle
  imports Main
begin

section \<open>Common JavaScript notions\<close>

text \<open>
  The extension is TypeScript running on a browser. Strings are lists of characters,
  \<open>undefined\<close>/\<open>null\<close> are \<open>None\<close>, and a promise is modelled by the way it
  settles. Exceptions of the language and errors reported by the vendor through
  \<open>chrome.runtime.lastError\<close> are values.
\<close>

text \<open>\<open>chrome.runtime.lastError\<close>: an object with an optional \<open>message\<close>.\<close>

datatype last_error = LastError "string option"

datatype js_error =
    ReferenceError string
  | TypeError string
  | Error string
  | VendorError last_error

text \<open>
  How a promise settles. \<open>Pending\<close> is a promise that is never settled: the source
  reaches it when a vendor callback throws before calling \<open>resolve\<close> or \<open>reject\<close>.
\<close>

datatype 'a promise = Resolved 'a | Rejected js_error | Pending

datatype console_entry =
    ConsoleLog string
  | ConsoleWarn string
  | ConsoleError string
  | ConsoleDebug string

text \<open>Truthiness of a string that may be \<open>undefined\<close>: defined and not empty.\<close>

fun truthy :: "string option \<Rightarrow> bool" where
  "truthy None = False"
| "truthy (Some s) = (s \<noteq> [])"

text \<open>\<open>x || d\<close> on an optional string.\<close>

fun or_else :: "string option \<Rightarrow> string \<Rightarrow> string" where
  "or_else None d = d"
| "or_else (Some s) d = (if s = [] then d else s)"

text \<open>
  \<open>/lit/.test(s)\<close> for a regular expression that is a literal word: the word occurs
  somewhere in \<open>s\<close>.
\<close>

fun starts_with :: "string \<Rightarrow> string \<Rightarrow> bool" where
  "starts_with [] s = True"
| "starts_with (p # ps) [] = False"
| "starts_with (p # ps) (c # cs) = (p = c \<and> starts_with ps cs)"

fun regex_test :: "string \<Rightarrow> string \<Rightarrow> bool" where
  "regex_test p [] = starts_with p []"
| "regex_test p (c # cs) = (starts_with p (c # cs) \<or> regex_test p cs)"

section \<open>Vendor detector (\<open>browser.is\<close>, \<open>browser.getBrowserName\<close>)\<close>

text \<open>
  The detector reads \<open>navigator.userAgent\<close> and the truthiness of the vendor global
  \<open>navigator.brave\<close>.
\<close>

record navigator =
  userAgent :: string
  brave :: bool

definition is_chrome :: "navigator \<Rightarrow> bool" where
  "is_chrome nav =
     (regex_test ''Chrome'' (userAgent nav) \<and>
      \<not> (regex_test ''Edg'' (userAgent nav) \<or> regex_test ''OPR'' (userAgent nav)) \<and>
      \<not> brave nav)"

definition is_brave :: "navigator \<Rightarrow> bool" where
  "is_brave nav = brave nav"

definition is_edge :: "navigator \<Rightarrow> bool" where
  "is_edge nav = regex_test ''Edg'' (userAgent nav)"

definition is_opera :: "navigator \<Rightarrow> bool" where
  "is_opera nav = regex_test ''OPR'' (userAgent nav)"

definition getBrowserName :: "navigator \<Rightarrow> string" where
  "getBrowserName nav =
     (if is_brave nav then ''Brave''
      else if is_edge nav then ''Edge''
      else if is_opera nav then ''Opera''
      else if is_chrome nav then ''Chrome''
      else ''Unknown'')"

section \<open>Capability facade: \<open>sidePanel\<close>\<close>

text \<open>
  The global \<open>chrome\<close> may be undefined (\<open>None\<close>); so may \<open>chrome.sidePanel\<close>,
  \<open>chrome.sidebarAction\<close> and each of their methods. A vendor method is modelled
  by the way the promise it returns settles. Every operation returns the way its own
  promise settles, what it wrote on the console (the fixed part of each message) and
  the vendor calls it made.
\<close>

record panel_options =
  enabled :: "bool option"
  path :: "string option"

record side_panel_api =
  sp_setOptions :: "(panel_options \<Rightarrow> js_error option) option"
  sp_open :: "(int option \<Rightarrow> js_error option) option"
  sp_getOptions :: "(int option \<Rightarrow> js_error + panel_options) option"

record sidebar_action_api =
  sa_setPanel :: "(string \<Rightarrow> js_error option) option"
  sa_open :: "(js_error option) option"

record chrome_panels =
  sidePanel :: "side_panel_api option"
  sidebarAction :: "sidebar_action_api option"

datatype panel_call =
    SidePanelSetOptions panel_options
  | SidebarActionSetPanel string
  | SidePanelOpen "int option"
  | SidebarActionOpen
  | SidePanelGetOptions "int option"

type_synonym 'a panel_result = "'a promise \<times> console_entry list \<times> panel_call list"

fun settled :: "js_error option \<Rightarrow> unit promise" where
  "settled None = Resolved ()"
| "settled (Some e) = Rejected e"

text \<open>\<open>error instanceof Error\<close>: a vendor's error object need not be one.\<close>

fun instanceof_Error :: "js_error \<Rightarrow> bool" where
  "instanceof_Error (VendorError e) = False"
| "instanceof_Error e = True"

definition sidePanel_isAvailable :: "chrome_panels option \<Rightarrow> bool" where
  "sidePanel_isAvailable chrome =
     (case chrome of
        None \<Rightarrow> False
      | Some c \<Rightarrow> \<not> (Option.is_none (sidePanel c) \<and> Option.is_none (sidebarAction c)))"

definition sidePanel_setOptions ::
  "chrome_panels option \<Rightarrow> panel_options \<Rightarrow> unit panel_result" where
  "sidePanel_setOptions chrome options =
     (case chrome of
        None \<Rightarrow> (Rejected (ReferenceError ''chrome is not defined''), [], [])
      | Some c \<Rightarrow>
          (case sidePanel c of
             Some sp \<Rightarrow>
               (case sp_setOptions sp of
                  None \<Rightarrow>
                    (Rejected (TypeError ''chrome.sidePanel.setOptions is not a function''),
                     [], [])
                | Some f \<Rightarrow> (settled (f options), [], [SidePanelSetOptions options]))
           | None \<Rightarrow>
               (case sidebarAction c of
                  Some sa \<Rightarrow>
                    (if truthy (path options) then
                       (case sa_setPanel sa of
                          None \<Rightarrow>
                            (Rejected (TypeError ''sidebarAction.setPanel is not a function''),
                             [], [])
                        | Some f \<Rightarrow>
                            (settled (f (the (path options))), [],
                             [SidebarActionSetPanel (the (path options))]))
                     else (Resolved (), [], []))
                | None \<Rightarrow>
                    (Resolved (),
                     [ConsoleWarn ''[Browser] sidePanel API not available in this browser''],
                     []))))"

definition sidePanel_open :: "chrome_panels option \<Rightarrow> int option \<Rightarrow> unit panel_result" where
  "sidePanel_open chrome windowId =
     (let called = ConsoleLog ''[Browser] sidePanel.open() called with options:'' in
      case chrome of
        None \<Rightarrow> (Resolved (), [called, ConsoleError ''[Browser] chrome is undefined''], [])
      | Some c \<Rightarrow>
          (case Option.bind (sidePanel c) sp_open of
             Some f \<Rightarrow>
               (let arg = (if windowId \<noteq> None \<and> windowId \<noteq> Some 0 then windowId else None);
                    before =
                      [called, ConsoleLog ''[Browser] Using chrome.sidePanel.open()'',
                       (if arg \<noteq> None then ConsoleLog ''[Browser] Opening sidebar for window:''
                        else ConsoleLog ''[Browser] Opening sidebar without window specification'')]
                in case f arg of
                     None \<Rightarrow>
                       (Resolved (),
                        before @ [ConsoleLog ''[Browser] chrome.sidePanel.open() succeeded''],
                        [SidePanelOpen arg])
                   | Some e \<Rightarrow>
                       (Rejected e,
                        before @ [ConsoleError ''[Browser] chrome.sidePanel.open() failed:''] @
                        (if instanceof_Error e
                         then [ConsoleError ''[Browser] Error message:'',
                               ConsoleError ''[Browser] Error stack:'']
                         else []),
                        [SidePanelOpen arg]))
           | None \<Rightarrow>
               (case Option.bind (sidebarAction c) sa_open of
                  Some r \<Rightarrow>
                    (settled r, [called, ConsoleLog ''[Browser] Using chrome.sidebarAction.open()''],
                     [SidebarActionOpen])
                | None \<Rightarrow>
                    (Resolved (),
                     [called, ConsoleWarn ''[Browser] Cannot open sidebar - API not available''],
                     []))))"

definition sidePanel_getOptions ::
  "chrome_panels option \<Rightarrow> int option \<Rightarrow> panel_options option panel_result" where
  "sidePanel_getOptions chrome tabId =
     (case chrome of
        None \<Rightarrow> (Rejected (ReferenceError ''chrome is not defined''), [], [])
      | Some c \<Rightarrow>
          (case Option.bind (sidePanel c) sp_getOptions of
             Some f \<Rightarrow>
               (case f tabId of
                  Inl e \<Rightarrow> (Rejected e, [], [SidePanelGetOptions tabId])
                | Inr v \<Rightarrow> (Resolved (Some v), [], [SidePanelGetOptions tabId]))
           | None \<Rightarrow> (Resolved None, [], [])))"

text \<open>
  What "logs and no-ops" asks of a call: something was written on the console, the
  promise resolved, and the vendor was not called.
\<close>

fun is_resolved :: "'a promise \<Rightarrow> bool" where
  "is_resolved (Resolved v) = True"
| "is_resolved p = False"

definition logs_and_noops :: "'a panel_result \<Rightarrow> bool" where
  "logs_and_noops r = (fst (snd r) \<noteq> [] \<and> is_resolved (fst r) \<and> snd (snd r) = [])"

section \<open>Capability facade: \<open>notifications\<close>\<close>

text \<open>
  The vendor and the web platform have a state of their own, of a type \<open>'w\<close> left
  open: each of their functions reads it and may change it. A vendor function that
  takes a callback either throws or calls back, with \<open>chrome.runtime.lastError\<close> set
  or not.
\<close>

record notification_options =
  opt_type :: string
  opt_title :: "string option"
  opt_message :: "string option"
  opt_iconUrl :: "string option"
  opt_buttons :: "string list option"
  opt_requireInteraction :: "bool option"

text \<open>The two forms of \<open>create\<close>: \<open>create(options)\<close> and \<open>create(id, options)\<close>.\<close>

datatype create_args =
    OptionsOnly notification_options
  | WithId string notification_options

datatype 'a vendor_reply = Throws js_error | CallsBack "last_error option" 'a

record web_notification =
  wn_title :: string
  wn_body :: "string option"
  wn_icon :: "string option"
  wn_badge :: "string option"
  wn_tag :: string
  wn_requireInteraction :: "bool option"

record 'w chrome_notifications =
  cn_create :: "(string \<Rightarrow> notification_options \<Rightarrow> 'w \<Rightarrow> string vendor_reply \<times> 'w) option"
  cn_clear :: "(string \<Rightarrow> 'w \<Rightarrow> bool vendor_reply \<times> 'w) option"

record 'w web_notification_api =
  permission :: "'w \<Rightarrow> string"
  requestPermission :: "'w \<Rightarrow> string \<times> 'w"

text \<open>
  \<open>chrome_api\<close> is \<open>chrome.notifications\<close>, \<open>None\<close> when \<open>chrome\<close> or the API is
  undefined; \<open>web_api\<close> is the global \<open>Notification\<close>, \<open>None\<close> when there is no
  \<open>window\<close> or no such global; \<open>date_now\<close> is \<open>Date.now()\<close>; \<open>handle_member\<close>
  tells the names of the members of a \<open>Notification\<close> object (\<open>close\<close>, \<open>title\<close>,
  \<open>onclick\<close> and so on), which the platform fixes.
\<close>

record 'w notif_env =
  chrome_api :: "'w chrome_notifications option"
  web_api :: "'w web_notification_api option"
  date_now :: "'w \<Rightarrow> nat"
  handle_member :: "string \<Rightarrow> bool"

text \<open>
  The table \<open>_webNotifications\<close> is a plain object \<open>{}\<close> used as a dictionary. It has
  the keys stored in it and a prototype, and a read \<open>table[k]\<close> goes through both:
  \<^item> a stored key gives its handle;
  \<^item> \<open>__proto__\<close> gives the prototype, which is \<open>Object.prototype\<close> until a handle is
    stored under that very key: \<open>table["__proto__"] = n\<close> stores no key and makes \<open>n\<close>
    the prototype;
  \<^item> any other name of a member of \<open>Object.prototype\<close>, and, once a handle is the
    prototype, any name of a member of that handle, gives something that is not a
    handle (or throws while it is read);
  \<^item> every other name gives \<open>undefined\<close>.
  A write \<open>table[k] = n\<close> with another key stores the key (the write is taken to
  succeed); \<open>delete table[k]\<close> removes a stored key.
\<close>

record handle_table =
  own :: "string \<rightharpoonup> web_notification"
  proto :: "web_notification option"

definition empty_table :: handle_table where
  "empty_table = \<lparr>own = Map.empty, proto = None\<rparr>"

definition object_prototype_members :: "string list" where
  "object_prototype_members =
     [''constructor'', ''__defineGetter__'', ''__defineSetter__'', ''hasOwnProperty'',
      ''__lookupGetter__'', ''__lookupSetter__'', ''isPrototypeOf'',
      ''propertyIsEnumerable'', ''toString'', ''valueOf'', ''__proto__'',
      ''toLocaleString'']"

datatype found = Absent | Handle web_notification | NotAHandle

definition table_get :: "(string \<Rightarrow> bool) \<Rightarrow> handle_table \<Rightarrow> string \<Rightarrow> found" where
  "table_get member t k =
     (case own t k of
        Some n \<Rightarrow> Handle n
      | None \<Rightarrow>
          if k = ''__proto__'' then (case proto t of Some n \<Rightarrow> Handle n | None \<Rightarrow> NotAHandle)
          else if k \<in> set object_prototype_members then NotAHandle
          else (case proto t of
                  None \<Rightarrow> Absent
                | Some n \<Rightarrow> if member k then NotAHandle else Absent))"

definition table_set :: "handle_table \<Rightarrow> string \<Rightarrow> web_notification \<Rightarrow> handle_table" where
  "table_set t k n =
     (if k = ''__proto__'' then t\<lparr>proto := Some n\<rparr> else t\<lparr>own := (own t)(k \<mapsto> n)\<rparr>)"

definition table_delete :: "handle_table \<Rightarrow> string \<Rightarrow> handle_table" where
  "table_delete t k = t\<lparr>own := (own t)(k := None)\<rparr>"

text \<open>
  The state: the platform's, the facade's table \<open>_webNotifications\<close> of web
  notification handles (undefined until the first one is stored), the handles closed
  so far and the console.
\<close>

record 'w notif_state =
  world :: 'w
  webNotifications :: "handle_table option"
  closed :: "web_notification list"
  console :: "console_entry list"

text \<open>Decimal digits of a number, as the template literal prints \<open>Date.now()\<close>.\<close>

function string_of_nat :: "nat \<Rightarrow> string" where
  "string_of_nat n =
     (if n < 10 then [''0123456789'' ! n]
      else string_of_nat (n div 10) @ [''0123456789'' ! (n mod 10)])"
  by pat_completeness auto
termination
  by (relation "measure id") auto

definition checkPermission :: "'w notif_env \<Rightarrow> 'w \<Rightarrow> string" where
  "checkPermission env w =
     (case chrome_api env of
        Some c \<Rightarrow> ''granted''
      | None \<Rightarrow> (case web_api env of Some api \<Rightarrow> permission api w | None \<Rightarrow> ''denied''))"

definition notification_id :: "'w notif_env \<Rightarrow> create_args \<Rightarrow> 'w \<Rightarrow> string" where
  "notification_id env args w =
     (case args of
        WithId i opts \<Rightarrow> i
      | OptionsOnly opts \<Rightarrow> ''notif-'' @ string_of_nat (date_now env w))"

fun args_options :: "create_args \<Rightarrow> notification_options" where
  "args_options (WithId i opts) = opts"
| "args_options (OptionsOnly opts) = opts"

definition log_entry :: "console_entry \<Rightarrow> 'w notif_state \<Rightarrow> 'w notif_state" where
  "log_entry e st = st\<lparr>console := console st @ [e]\<rparr>"

text \<open>
  The first half of \<open>create\<close>: the extension API, when it is there. \<open>Some\<close> is the
  identifier the vendor's callback passed without an error; a failure is caught.
\<close>

definition chrome_create :: "'w notif_env \<Rightarrow> string \<Rightarrow> notification_options \<Rightarrow> 'w notif_state \<Rightarrow>
    string option \<times> 'w notif_state" where
  "chrome_create env i opts st =
     (case Option.bind (chrome_api env) cn_create of
        None \<Rightarrow> (None, st)
      | Some f \<Rightarrow>
          (case f i opts (world st) of
             (CallsBack None notifId, w) \<Rightarrow> (Some notifId, st\<lparr>world := w\<rparr>)
           | (r, w) \<Rightarrow>
               (None,
                log_entry (ConsoleWarn ''[Browser] Chrome notifications failed, trying fallback:'')
                  (st\<lparr>world := w\<rparr>))))"

text \<open>\<open>new Notification(title, options)\<close>, taken to return its handle.\<close>

definition new_Notification :: "string \<Rightarrow> notification_options \<Rightarrow> web_notification" where
  "new_Notification i opts =
     \<lparr>wn_title = or_else (opt_title opts) ''Notification'',
      wn_body = opt_message opts,
      wn_icon = opt_iconUrl opts,
      wn_badge = opt_iconUrl opts,
      wn_tag = i,
      wn_requireInteraction = opt_requireInteraction opts\<rparr>"

definition store_handle :: "string \<Rightarrow> web_notification \<Rightarrow> 'w notif_state \<Rightarrow> 'w notif_state" where
  "store_handle i n st =
     st\<lparr>webNotifications :=
          Some (table_set (case webNotifications st of None \<Rightarrow> empty_table | Some t \<Rightarrow> t)
                  i n)\<rparr>"

definition not_available :: "'w notif_state \<Rightarrow> 'w notif_state" where
  "not_available st =
     log_entry (ConsoleWarn ''[Browser] Notifications not available in this environment'') st"

text \<open>
  \<open>create\<close> with the identifier settled. After a permission request that is granted
  it calls itself; \<open>None\<close> is a run that never returns.
\<close>

partial_function (option) create_with ::
  "'w notif_env \<Rightarrow> string \<Rightarrow> notification_options \<Rightarrow> 'w notif_state \<Rightarrow>
   (string promise \<times> 'w notif_state) option" where
  "create_with env i opts st =
     (case chrome_create env i opts st of
        (Some notifId, st1) \<Rightarrow> Some (Resolved notifId, st1)
      | (None, st1) \<Rightarrow>
          (case web_api env of
             None \<Rightarrow> Some (Resolved i, not_available st1)
           | Some api \<Rightarrow>
               if checkPermission env (world st1) = ''granted'' then
                 Some (Resolved i, store_handle i (new_Notification i opts) st1)
               else if checkPermission env (world st1) = ''default'' then
                 (case requestPermission api (world st1) of
                    (newPermission, w) \<Rightarrow>
                      if newPermission = ''granted'' then
                        create_with env i opts
                          (log_entry
                             (ConsoleWarn
                                ''[Browser] Notification permission not granted. Requesting...'')
                             (st1\<lparr>world := w\<rparr>))
                      else
                        Some (Resolved i,
                          not_available
                            (log_entry
                               (ConsoleWarn
                                  ''[Browser] Notification permission not granted. Requesting...'')
                               (st1\<lparr>world := w\<rparr>))))
               else Some (Resolved i, not_available st1)))"

declare create_with.simps [code]

definition create ::
  "'w notif_env \<Rightarrow> create_args \<Rightarrow> 'w notif_state \<Rightarrow> (string promise \<times> 'w notif_state) option" where
  "create env args st =
     create_with env (notification_id env args (world st)) (args_options args) st"

text \<open>
  \<open>clear\<close>. The extension API, when it offers \<open>clear\<close>, answers; should it throw,
  the failure is caught and the table is tried, as it is when the API is absent. What
  the table gives for the identifier is closed and deleted; when that is not a handle
  the call of \<open>close\<close> throws and the promise is rejected.
\<close>

definition clear_web :: "'w notif_env \<Rightarrow> string \<Rightarrow> 'w notif_state \<Rightarrow> bool promise \<times> 'w notif_state" where
  "clear_web env notificationId st =
     (case webNotifications st of
        None \<Rightarrow> (Resolved False, st)
      | Some t \<Rightarrow>
          (case table_get (handle_member env) t notificationId of
             Absent \<Rightarrow> (Resolved False, st)
           | Handle n \<Rightarrow>
               (Resolved True,
                st\<lparr>webNotifications := Some (table_delete t notificationId),
                   closed := closed st @ [n]\<rparr>)
           | NotAHandle \<Rightarrow> (Rejected (TypeError ''close is not a function''), st)))"

definition clear :: "'w notif_env \<Rightarrow> string \<Rightarrow> 'w notif_state \<Rightarrow> bool promise \<times> 'w notif_state" where
  "clear env notificationId st =
     (case Option.bind (chrome_api env) cn_clear of
        None \<Rightarrow> clear_web env notificationId st
      | Some f \<Rightarrow>
          (case f notificationId (world st) of
             (CallsBack e wasCleared, w) \<Rightarrow> (Resolved wasCleared, st\<lparr>world := w\<rparr>)
           | (Throws e, w) \<Rightarrow>
               clear_web env notificationId
                 (log_entry (ConsoleWarn ''[Browser] Failed to clear notification:'')
                    (st\<lparr>world := w\<rparr>))))"

text \<open>
  The web capability grants permission: \<open>Notification.permission\<close> is \<open>granted\<close>, or
  it is \<open>default\<close> and a request is granted. Without the global \<open>Notification\<close>
  nothing is granted.
\<close>

definition web_grants :: "'w notif_env \<Rightarrow> 'w \<Rightarrow> bool" where
  "web_grants env w =
     (case web_api env of
        None \<Rightarrow> False
      | Some api \<Rightarrow>
          permission api w = ''granted'' \<or>
          (permission api w = ''default'' \<and> fst (requestPermission api w) = ''granted''))"

section \<open>The platform's URL reader\<close>

text \<open>
  \<open>new URL(s)\<close> and \<open>URLSearchParams\<close> belong to the browser, not to the extension.
  The model takes them as parameters: \<open>url_parse s\<close> is \<open>None\<close> where the constructor
  throws, and \<open>search_params_get init name\<close> is
  \<open>new URLSearchParams(init).get(name)\<close>. Only the components the extension reads
  are kept.
\<close>

record url =
  origin :: string
  pathname :: string
  search :: string
  hash :: string

type_synonym url_reader = "string \<Rightarrow> url option"

section \<open>Identity shim (\<open>ChromeIdentityApi\<close>)\<close>

text \<open>
  A vendor function that reports through a callback is modelled by what the callback
  sees: the value of \<open>chrome.runtime.lastError\<close> at that moment and the callback's
  argument. The vendor calls are recorded in the order in which they are made.
\<close>

record cookie =
  cookie_name :: string
  cookie_value :: string

record auth_token_result =
  token :: "string option"

datatype vendor_call =
    CookiesGet string string
  | CookiesSet string string string
  | LaunchWebAuthFlow string bool
  | GetAuthToken bool

fun cookie_of_call :: "vendor_call \<Rightarrow> string option" where
  "cookie_of_call (CookiesGet u n) = Some n"
| "cookie_of_call (CookiesSet u n v) = Some n"
| "cookie_of_call (LaunchWebAuthFlow u i) = None"
| "cookie_of_call (GetAuthToken i) = None"

fun is_cookie_write :: "vendor_call \<Rightarrow> bool" where
  "is_cookie_write (CookiesSet u n v) = True"
| "is_cookie_write c = False"

record identity_env =
  window_href :: "string option"
  cookies_get :: "string \<Rightarrow> string \<Rightarrow> last_error option \<times> cookie option"
  cookies_set :: "string \<Rightarrow> string \<Rightarrow> string \<Rightarrow> last_error option \<times> cookie option"
  getRedirectURL :: string
  launchWebAuthFlow :: "string \<Rightarrow> bool \<Rightarrow> last_error option \<times> string option"
  getAuthToken :: "bool \<Rightarrow> last_error option \<times> auth_token_result option"
  url_parse :: url_reader
  search_params_get :: "string \<Rightarrow> string \<Rightarrow> string option"
  encodeURIComponent :: "string \<Rightarrow> string"

record identity_api =
  clientId :: string
  scopes :: "string list"

definition googleAuthApiUrl :: string where
  "googleAuthApiUrl = ''https://accounts.google.com/o/oauth2/auth''"

text \<open>\<open>Array.prototype.join\<close>.\<close>

fun join :: "string \<Rightarrow> string list \<Rightarrow> string" where
  "join sep [] = []"
| "join sep [x] = x"
| "join sep (x # y # ys) = x @ sep @ join sep (y # ys)"

text \<open>
  \<open>tokenCookie\<close>. The promise's executor reads \<open>globalThis.window.location.href\<close>
  before the vendor call; where there is no \<open>window\<close> that read throws and the
  promise is rejected with the exception, the vendor not being called.
\<close>

definition tokenCookie ::
  "identity_env \<Rightarrow> string \<Rightarrow> string option \<Rightarrow> string promise \<times> vendor_call list" where
  "tokenCookie env operation tok =
     (if operation = ''get'' then
        (case window_href env of
           None \<Rightarrow> (Rejected (TypeError ''window is undefined''), [])
         | Some href \<Rightarrow>
             (case cookies_get env href ''authToken'' of
                (Some e, c) \<Rightarrow> (Rejected (VendorError e), [CookiesGet href ''authToken''])
              | (None, c) \<Rightarrow>
                  (Resolved (or_else (map_option cookie_value c) []),
                   [CookiesGet href ''authToken''])))
      else if operation = ''set'' \<and> truthy tok then
        (case window_href env of
           None \<Rightarrow> (Rejected (TypeError ''window is undefined''), [])
         | Some href \<Rightarrow>
             (case cookies_set env href ''authToken'' (the tok) of
                (Some e, c) \<Rightarrow>
                  (Rejected (VendorError e), [CookiesSet href ''authToken'' (the tok)])
              | (None, c) \<Rightarrow>
                  (Resolved (or_else (map_option cookie_value c) []),
                   [CookiesSet href ''authToken'' (the tok)])))
      else
        (Rejected (Error ''Invalid operation or missing token for set operation''), []))"

text \<open>\<open>extractToken\<close>; \<open>Inl\<close> is the exception of \<open>new URL\<close>.\<close>

definition extractToken :: "identity_env \<Rightarrow> string option \<Rightarrow> js_error + string option" where
  "extractToken env redirectUrl =
     (if \<not> truthy redirectUrl then Inr None
      else
        (case url_parse env (the redirectUrl) of
           None \<Rightarrow> Inl (TypeError ''Invalid URL'')
         | Some u \<Rightarrow>
             (if hash u \<noteq> []
              then Inr (search_params_get env (drop 1 (hash u)) ''access_token'')
              else Inr None)))"

definition auth_url :: "identity_env \<Rightarrow> identity_api \<Rightarrow> string" where
  "auth_url env api =
     googleAuthApiUrl @ ''?client_id='' @ clientId api @
     ''&response_type=token&redirect_uri='' @ encodeURIComponent env (getRedirectURL env) @
     ''&scope='' @ encodeURIComponent env (join '' '' (scopes api))"

type_synonym local_storage = "string \<rightharpoonup> string"

text \<open>
  \<open>signIn\<close>. An exception inside a vendor callback (an unreadable redirect URL, a
  missing token response) leaves the promise unsettled.
\<close>

definition signIn ::
  "identity_env \<Rightarrow> identity_api \<Rightarrow> local_storage \<Rightarrow> bool \<Rightarrow>
   unit promise \<times> local_storage \<times> vendor_call list" where
  "signIn env api storage interactive =
     (let flow = LaunchWebAuthFlow (auth_url env api) interactive in
      case launchWebAuthFlow env (auth_url env api) interactive of
        (Some e, redirectUrl) \<Rightarrow> (Rejected (VendorError e), storage, [flow])
      | (None, redirectUrl) \<Rightarrow>
          (case extractToken env (if truthy redirectUrl then redirectUrl else None) of
             Inl exn \<Rightarrow> (Pending, storage, [flow])
           | Inr tok \<Rightarrow>
               if truthy tok then
                 (case getAuthToken env False of
                    (Some e, tokenResponse) \<Rightarrow>
                      (Rejected (VendorError e), storage, [flow, GetAuthToken False])
                  | (None, None) \<Rightarrow> (Pending, storage, [flow, GetAuthToken False])
                  | (None, Some tokenResponse) \<Rightarrow>
                      (Resolved (),
                       storage(''authToken'' \<mapsto> or_else (token tokenResponse) []),
                       [flow, GetAuthToken False]))
               else (Rejected (Error ''Failed to extract token''), storage, [flow])))"

text \<open>
  \<open>signOut\<close>. The callback's argument is the token response object; \<open>if (token)\<close>
  holds when the vendor passed one.
\<close>

definition signOut ::
  "identity_env \<Rightarrow> local_storage \<Rightarrow> unit promise \<times> local_storage \<times> vendor_call list" where
  "signOut env storage =
     (case getAuthToken env True of
        (Some e, tok) \<Rightarrow> (Rejected (VendorError e), storage, [GetAuthToken True])
      | (None, tok) \<Rightarrow>
          (Resolved (),
           (if tok \<noteq> None then storage(''authToken'' := None) else storage),
           [GetAuthToken True]))"

section \<open>Action pipeline (\<open>cleanCopyUrl\<close>)\<close>

text \<open>
  Modelled from the spec: \<open>src/logic/cleanCopyUrl.ts\<close>, the module that defines
  \<open>cleanCopyUrl\<close> and \<open>cleanCopyUrlAction\<close>, is not among the sources; only its test
  \<open>src/test/cleanCopyUrl.test.ts\<close> is. \<open>cleanCopyUrl\<close> follows section 4.4 of the
  specification: it reads the input as a URL and returns the origin followed by the
  path name, and the empty string where the input is not a URL.
\<close>

definition cleanCopyUrl :: "url_reader \<Rightarrow> string \<Rightarrow> string" where
  "cleanCopyUrl rd s = (case rd s of None \<Rightarrow> [] | Some u \<Rightarrow> origin u @ pathname u)"

text \<open>
  Modelled from the spec: the context-menu descriptor and its action, steps 1 to 5 of
  section 4.4. The title and the target \<open>tabId\<close> (the tab's id, 0 when it has none)
  are those the test expects. The action's effects are listed in the order in which
  they happen. A link whose cleaned address is empty is reported like a missing one.
\<close>

datatype action_effect =
    InjectCopy nat string
  | InjectFindLink nat string
  | ShowNotification string string
  | Warn string

record action_env =
  reader :: url_reader
  inject_copy :: "nat \<Rightarrow> string \<Rightarrow> js_error option"
  inject_find_link :: "nat \<Rightarrow> string \<Rightarrow> js_error + string option"

record action_context =
  tab_id :: "nat option"
  window_id :: "nat option"
  selection :: "string option"

record context_menu_action =
  title :: string
  contexts :: "string list"
  action :: "action_context \<Rightarrow> action_effect list"

definition copy_step :: "action_env \<Rightarrow> nat \<Rightarrow> string \<Rightarrow> action_effect list" where
  "copy_step env tab cleaned =
     (case inject_copy env tab cleaned of
        None \<Rightarrow> [InjectCopy tab cleaned]
      | Some e \<Rightarrow>
          [InjectCopy tab cleaned,
           Warn ''Error while copying cleaned URL to clipboard:'',
           ShowNotification ''Clean Copy URL''
             ''An error occurred while copying the cleaned URL.''])"

definition clean_copy_action :: "action_env \<Rightarrow> action_context \<Rightarrow> action_effect list" where
  "clean_copy_action env ctx =
     (let tab = (case tab_id ctx of None \<Rightarrow> 0 | Some i \<Rightarrow> i);
          cleaned = (if truthy (selection ctx)
                     then cleanCopyUrl (reader env) (the (selection ctx)) else [])
      in if cleaned \<noteq> [] then copy_step env tab cleaned
         else
           (case inject_find_link env tab (or_else (selection ctx) []) of
              Inl e \<Rightarrow>
                [InjectFindLink tab (or_else (selection ctx) []),
                 Warn ''Error while copying cleaned URL to clipboard:'',
                 ShowNotification ''Clean Copy URL''
                   ''An error occurred while copying the cleaned URL.'']
            | Inr href \<Rightarrow>
                InjectFindLink tab (or_else (selection ctx) []) #
                (if truthy href \<and> cleanCopyUrl (reader env) (the href) \<noteq> []
                 then copy_step env tab (cleanCopyUrl (reader env) (the href))
                 else [ShowNotification ''Clean Copy URL'' ''No valid URL found to copy.''])))"

definition cleanCopyUrlAction :: "action_env \<Rightarrow> context_menu_action" where
  "cleanCopyUrlAction env =
     \<lparr>title = ''Clean Copy URL'',
      contexts = [''link'', ''selection'', ''page''],
      action = clean_copy_action env\<rparr>"

section \<open>A small platform for the worked examples\<close>

text \<open>
  The theorems below hold for every URL reader and every vendor. Their worked examples
  need a concrete one: a reader for the plain shape
  \<open>http(s)://host/path?query#fragment\<close>, and a reader of \<open>name=value\<close> pairs
  separated by \<open>&\<close> that returns the first value of a name.
\<close>

definition demo_url_parse :: url_reader where
  "demo_url_parse s =
     (let body = takeWhile (\<lambda>c. c \<noteq> CHR ''#'') s;
          frag = dropWhile (\<lambda>c. c \<noteq> CHR ''#'') s;
          front = takeWhile (\<lambda>c. c \<noteq> CHR ''?'') body;
          query = dropWhile (\<lambda>c. c \<noteq> CHR ''?'') body;
          scheme = (if starts_with ''https://'' front then ''https://''
                    else if starts_with ''http://'' front then ''http://'' else []);
          rest = drop (length scheme) front;
          host = takeWhile (\<lambda>c. c \<noteq> CHR ''/'') rest;
          path = dropWhile (\<lambda>c. c \<noteq> CHR ''/'') rest
      in if scheme = [] \<or> host = [] \<or> CHR '' '' \<in> set host then None
         else Some \<lparr>origin = scheme @ host,
                    pathname = (if path = [] then ''/'' else path),
                    search = (if length query \<le> 1 then [] else query),
                    hash = (if length frag \<le> 1 then [] else frag)\<rparr>)"

fun split_on :: "char \<Rightarrow> string \<Rightarrow> string list" where
  "split_on d [] = [[]]"
| "split_on d (c # cs) =
     (if c = d then [] # split_on d cs
      else (case split_on d cs of [] \<Rightarrow> [[c]] | w # ws \<Rightarrow> (c # w) # ws))"

definition demo_search_params_get :: "string \<Rightarrow> string \<Rightarrow> string option" where
  "demo_search_params_get init name =
     map_of
       (map (\<lambda>p. (takeWhile (\<lambda>c. c \<noteq> CHR ''='') p,
                   drop 1 (dropWhile (\<lambda>c. c \<noteq> CHR ''='') p)))
            (filter (\<lambda>p. p \<noteq> []) (split_on (CHR ''&'') init)))
       name"

text \<open>
  A vendor for the examples: cookies are stored as asked, the web-auth flow redirects
  to \<open>redirect\<close>, and the token call answers \<open>reply\<close>.
\<close>

definition demo_identity_env ::
  "string option \<Rightarrow> last_error option \<times> auth_token_result option \<Rightarrow> identity_env" where
  "demo_identity_env redirect reply =
     \<lparr>window_href = Some ''https://app.example/popup.html'',
      cookies_get = (\<lambda>u n. (None, None)),
      cookies_set = (\<lambda>u n v. (None, Some \<lparr>cookie_name = n, cookie_value = v\<rparr>)),
      getRedirectURL = ''https://abc.chromiumapp.org/'',
      launchWebAuthFlow = (\<lambda>u i. (None, redirect)),
      getAuthToken = (\<lambda>i. reply),
      url_parse = demo_url_parse,
      search_params_get = demo_search_params_get,
      encodeURIComponent = (\<lambda>s. s)\<rparr>"

text \<open>A browser with neither panel API.\<close>

definition no_panels :: chrome_panels where
  "no_panels = \<lparr>sidePanel = None, sidebarAction = None\<rparr>"

text \<open>
  A page without the extension API, whose state is the value of
  \<open>Notification.permission\<close> and whose user refuses every request.
\<close>

definition demo_notif_env :: "string notif_env" where
  "demo_notif_env =
     \<lparr>chrome_api = None,
      web_api = Some \<lparr>permission = (\<lambda>w. w), requestPermission = (\<lambda>w. (''denied'', ''denied''))\<rparr>,
      date_now = (\<lambda>w. 1700),
      handle_member = (\<lambda>k. k \<in> set [''close'', ''title'', ''body'', ''onclick''])\<rparr>"

text \<open>
  An extension page: the extension API is there and its \<open>create\<close> reports an error
  (an icon that cannot be loaded); the page has the global \<open>Notification\<close> too.
\<close>

definition demo_failing_extension_env :: "string notif_env" where
  "demo_failing_extension_env =
     demo_notif_env
       \<lparr>chrome_api :=
          Some \<lparr>cn_create =
                  Some (\<lambda>i opts w.
                    (CallsBack
                       (Some (LastError (Some ''Unable to download all specified images.'')))
                       i, w)),
                cn_clear = None\<rparr>\<rparr>"

definition demo_notif_state ::
  "string \<Rightarrow> handle_table option \<Rightarrow> string notif_state" where
  "demo_notif_state p tab = \<lparr>world = p, webNotifications = tab, closed = [], console = []\<rparr>"

definition demo_options :: notification_options where
  "demo_options =
     \<lparr>opt_type = ''basic'', opt_title = Some ''Tab Updated'', opt_message = Some ''done'',
      opt_iconUrl = Some ''icon-48.png'', opt_buttons = None, opt_requireInteraction = None\<rparr>"

section \<open>Properties of the vendor detector\<close>

lemma starts_with_iff: "starts_with p s \<longleftrightarrow> (\<exists>t. s = p @ t)"
  by (induction p s rule: starts_with.induct) auto

lemma regex_test_iff: "regex_test p s \<longleftrightarrow> (\<exists>a b. s = a @ p @ b)"
proof (induction s)
  case Nil
  then show ?case by (auto simp: starts_with_iff)
next
  case (Cons c cs)
  show ?case
  proof
    assume "regex_test p (c # cs)"
    then consider "starts_with p (c # cs)" | "regex_test p cs" by auto
    then show "\<exists>a b. c # cs = a @ p @ b"
    proof cases
      case 1
      then obtain t where "c # cs = p @ t" by (auto simp: starts_with_iff)
      then have "c # cs = [] @ p @ t" by simp
      then show ?thesis by blast
    next
      case 2
      with Cons obtain a b where "cs = a @ p @ b" by auto
      then have "c # cs = (c # a) @ p @ b" by simp
      then show ?thesis by blast
    qed
  next
    assume "\<exists>a b. c # cs = a @ p @ b"
    then obtain a b where ab: "c # cs = a @ p @ b" by blast
    show "regex_test p (c # cs)"
    proof (cases a)
      case Nil
      with ab have "starts_with p (c # cs)" by (auto simp: starts_with_iff)
      then show ?thesis by simp
    next
      case (Cons x a')
      with ab have "cs = a' @ p @ b" by simp
      with Cons.IH have "regex_test p cs" by blast
      then show ?thesis by simp
    qed
  qed
qed

text \<open>
  C3. For every user agent and every state of the Brave global, \<open>getBrowserName\<close>
  returns one of the five names. The Edge and Opera tests come before the Chrome test:
  outside Brave, a user agent containing \<open>Edg\<close> gives \<open>Edge\<close>, one containing
  \<open>OPR\<close> and not \<open>Edg\<close> gives \<open>Opera\<close>, and whenever the user agent contains
  \<open>Edg\<close> or \<open>OPR\<close> the result is not \<open>Chrome\<close>.
\<close>

theorem getBrowserName_range_and_order:
  "getBrowserName nav \<in> {''Chrome'', ''Brave'', ''Edge'', ''Opera'', ''Unknown''} \<and>
   ((\<exists>a b. userAgent nav = a @ ''Edg'' @ b) \<or> (\<exists>a b. userAgent nav = a @ ''OPR'' @ b)
      \<longrightarrow> getBrowserName nav \<noteq> ''Chrome'') \<and>
   (\<not> brave nav \<and> (\<exists>a b. userAgent nav = a @ ''Edg'' @ b)
      \<longrightarrow> getBrowserName nav = ''Edge'') \<and>
   (\<not> brave nav \<and> \<not> (\<exists>a b. userAgent nav = a @ ''Edg'' @ b) \<and>
      (\<exists>a b. userAgent nav = a @ ''OPR'' @ b)
      \<longrightarrow> getBrowserName nav = ''Opera'')"
  unfolding getBrowserName_def is_brave_def is_edge_def is_opera_def is_chrome_def
    regex_test_iff
  by simp

theorem getBrowserName_range_and_order_witness:
  "(\<exists>a b. ''Chrome/120 Safari/537 Edg/120'' = a @ ''Edg'' @ b) \<and>
   getBrowserName \<lparr>userAgent = ''Chrome/120 Safari/537 Edg/120'', brave = False\<rparr> = ''Edge'' \<and>
   getBrowserName \<lparr>userAgent = ''Chrome/120 Safari/537 Edg/120'', brave = False\<rparr>
     \<noteq> ''Chrome''"
proof -
  let ?nav = "\<lparr>userAgent = ''Chrome/120 Safari/537 Edg/120'', brave = False\<rparr>"
  have "''Chrome/120 Safari/537 Edg/120'' = ''Chrome/120 Safari/537 '' @ ''Edg'' @ ''/120''"
    by simp
  then have e: "\<exists>a b. ''Chrome/120 Safari/537 Edg/120'' = a @ ''Edg'' @ b"
    by blast
  from getBrowserName_range_and_order [of ?nav] e
  have "getBrowserName ?nav = ''Edge''" by simp
  with e show ?thesis by simp
qed

section \<open>Properties of the action pipeline\<close>

text \<open>
  C1. For every input that the URL reader accepts and that carries a query or a
  fragment, \<open>cleanCopyUrl\<close> returns the origin followed by the path name: the query
  and the fragment are dropped.
\<close>

theorem cleanCopyUrl_origin_pathname:
  "rd s = Some u \<Longrightarrow> search u \<noteq> [] \<or> hash u \<noteq> [] \<Longrightarrow>
   cleanCopyUrl rd s = origin u @ pathname u"
  by (simp add: cleanCopyUrl_def)

theorem cleanCopyUrl_origin_pathname_witness:
  "cleanCopyUrl demo_url_parse ''https://example.com/path?foo=bar#hash'' =
     ''https://example.com/path''"
proof -
  let ?s = "''https://example.com/path?foo=bar#hash''"
  let ?u = "\<lparr>origin = ''https://example.com'', pathname = ''/path'',
             search = ''?foo=bar'', hash = ''#hash''\<rparr>"
  have p: "demo_url_parse ?s = Some ?u"
    by (simp add: demo_url_parse_def Let_def)
  have q: "search ?u \<noteq> [] \<or> hash ?u \<noteq> []"
    by simp
  from cleanCopyUrl_origin_pathname [of demo_url_parse ?s ?u] p q
  show ?thesis by simp
qed

text \<open>
  With the reader of the worked examples the result has neither a query nor a
  fragment left.
\<close>

lemma demo_url_parse_no_query_or_fragment:
  assumes "demo_url_parse s = Some u"
  shows "CHR ''?'' \<notin> set (origin u @ pathname u) \<and> CHR ''#'' \<notin> set (origin u @ pathname u)"
proof -
  define front where "front = takeWhile (\<lambda>c. c \<noteq> CHR ''?'') (takeWhile (\<lambda>c. c \<noteq> CHR ''#'') s)"
  define scheme where "scheme = (if starts_with ''https://'' front then ''https://''
                    else if starts_with ''http://'' front then ''http://'' else [])"
  define rest where "rest = drop (length scheme) front"
  define host where "host = takeWhile (\<lambda>c. c \<noteq> CHR ''/'') rest"
  define path where "path = dropWhile (\<lambda>c. c \<noteq> CHR ''/'') rest"
  have f: "CHR ''?'' \<notin> set front \<and> CHR ''#'' \<notin> set front"
    unfolding front_def by (auto dest: set_takeWhileD)
  have "set rest \<subseteq> set front"
    unfolding rest_def by (rule set_drop_subset)
  moreover have "set host \<subseteq> set rest"
    unfolding host_def by (auto dest: set_takeWhileD)
  moreover have "set path \<subseteq> set rest"
    unfolding path_def by (auto dest: set_dropWhileD)
  ultimately have hp: "CHR ''?'' \<notin> set host \<and> CHR ''#'' \<notin> set host \<and>
      CHR ''?'' \<notin> set path \<and> CHR ''#'' \<notin> set path"
    using f by blast
  have sc: "CHR ''?'' \<notin> set scheme \<and> CHR ''#'' \<notin> set scheme"
    unfolding scheme_def by simp
  from assms have u: "u = \<lparr>origin = scheme @ host,
      pathname = (if path = [] then ''/'' else path),
      search = search u, hash = hash u\<rparr>"
    unfolding demo_url_parse_def Let_def front_def [symmetric] scheme_def [symmetric]
      rest_def [symmetric] host_def [symmetric] path_def [symmetric]
    by (auto split: if_splits)
  have "origin u = scheme @ host" and "pathname u = (if path = [] then ''/'' else path)"
    by (subst u, simp)+
  with hp sc show ?thesis by auto
qed

lemma demo_clean_has_no_query_or_fragment:
  "CHR ''?'' \<notin> set (cleanCopyUrl demo_url_parse s) \<and>
   CHR ''#'' \<notin> set (cleanCopyUrl demo_url_parse s)"
proof (cases "demo_url_parse s")
  case None
  then show ?thesis by (simp add: cleanCopyUrl_def)
next
  case (Some u)
  with demo_url_parse_no_query_or_fragment [OF Some] show ?thesis
    by (simp add: cleanCopyUrl_def)
qed

text \<open>
  C2. For every input that the URL reader rejects, \<open>cleanCopyUrl\<close> returns the empty
  string.
\<close>

theorem cleanCopyUrl_invalid:
  "rd s = None \<Longrightarrow> cleanCopyUrl rd s = []"
  by (simp add: cleanCopyUrl_def)

theorem cleanCopyUrl_invalid_witness:
  "demo_url_parse ''not a url'' = None \<and> cleanCopyUrl demo_url_parse ''not a url'' = []"
proof -
  have p: "demo_url_parse ''not a url'' = None"
    by (simp add: demo_url_parse_def Let_def)
  from cleanCopyUrl_invalid [of demo_url_parse "''not a url''"] p
  show ?thesis by simp
qed

text \<open>
  C7. The descriptor returned by \<open>cleanCopyUrlAction\<close> has the contexts \<open>link\<close>,
  \<open>selection\<close> and \<open>page\<close>, in this order; its title is the string
  \<open>Clean Copy URL\<close> and its action is the function of the pipeline (that the title
  is a string and the action a function is their type).
\<close>

theorem cleanCopyUrlAction_descriptor:
  "contexts (cleanCopyUrlAction env) = [''link'', ''selection'', ''page''] \<and>
   title (cleanCopyUrlAction env) = ''Clean Copy URL'' \<and>
   action (cleanCopyUrlAction env) = clean_copy_action env"
  by (simp add: cleanCopyUrlAction_def)

section \<open>Properties of the identity shim\<close>

text \<open>
  C4. \<open>tokenCookie\<close> with the operation \<open>set\<close> and no token, or an empty one, is
  rejected with an error and calls no vendor function. Every cookie call it makes is
  for the cookie named \<open>authToken\<close>, and it writes a cookie only when the operation
  is \<open>set\<close> and a token is given.
\<close>

theorem tokenCookie_set_needs_token:
  "(operation = ''set'' \<and> \<not> truthy tok \<longrightarrow>
      tokenCookie env operation tok =
        (Rejected (Error ''Invalid operation or missing token for set operation''), [])) \<and>
   (\<forall>c \<in> set (snd (tokenCookie env operation tok)).
      cookie_of_call c = Some ''authToken'' \<and>
      (is_cookie_write c \<longrightarrow> operation = ''set'' \<and> truthy tok))"
  by (auto simp: tokenCookie_def split: option.splits prod.splits)

theorem tokenCookie_set_needs_token_witness:
  "tokenCookie (demo_identity_env None (None, None)) ''set'' None =
     (Rejected (Error ''Invalid operation or missing token for set operation''), []) \<and>
   tokenCookie (demo_identity_env None (None, None)) ''set'' (Some []) =
     (Rejected (Error ''Invalid operation or missing token for set operation''), []) \<and>
   tokenCookie (demo_identity_env None (None, None)) ''set'' (Some ''t0k'') =
     (Resolved ''t0k'', [CookiesSet ''https://app.example/popup.html'' ''authToken'' ''t0k''])"
proof -
  let ?env = "demo_identity_env None (None, None)"
  from tokenCookie_set_needs_token [of "''set''" None ?env]
  have a: "tokenCookie ?env ''set'' None =
     (Rejected (Error ''Invalid operation or missing token for set operation''), [])"
    by simp
  from tokenCookie_set_needs_token [of "''set''" "Some []" ?env]
  have b: "tokenCookie ?env ''set'' (Some []) =
     (Rejected (Error ''Invalid operation or missing token for set operation''), [])"
    by simp
  have c: "tokenCookie ?env ''set'' (Some ''t0k'') =
     (Resolved ''t0k'', [CookiesSet ''https://app.example/popup.html'' ''authToken'' ''t0k''])"
    by (simp add: tokenCookie_def demo_identity_env_def)
  from a b c show ?thesis by simp
qed

text \<open>
  C5, as the code has it. \<open>signOut\<close> asks the vendor for a token, interactively. When
  the vendor reports an error the promise is rejected with it and the storage is left
  as it was. Otherwise the promise resolves, whether a token came back or not, and the
  entry \<open>authToken\<close> is removed from the local storage exactly when one came back.
\<close>

theorem signOut_outcome:
  "(\<forall>e tok. getAuthToken env True = (Some e, tok) \<longrightarrow>
      signOut env storage = (Rejected (VendorError e), storage, [GetAuthToken True])) \<and>
   (getAuthToken env True = (None, None) \<longrightarrow>
      signOut env storage = (Resolved (), storage, [GetAuthToken True])) \<and>
   (\<forall>r. getAuthToken env True = (None, Some r) \<longrightarrow>
      signOut env storage =
        (Resolved (), storage(''authToken'' := None), [GetAuthToken True]))"
  by (simp add: signOut_def)

theorem signOut_outcome_witness:
  "signOut (demo_identity_env None (Some (LastError (Some ''The user did not approve access.'')), None))
     [''authToken'' \<mapsto> ''tok''] =
     (Rejected (VendorError (LastError (Some ''The user did not approve access.''))),
      [''authToken'' \<mapsto> ''tok''], [GetAuthToken True]) \<and>
   signOut (demo_identity_env None (None, None)) [''authToken'' \<mapsto> ''tok''] =
     (Resolved (), [''authToken'' \<mapsto> ''tok''], [GetAuthToken True]) \<and>
   signOut (demo_identity_env None (None, Some \<lparr>token = Some ''tok''\<rparr>))
     [''authToken'' \<mapsto> ''tok''] =
     (Resolved (), Map.empty, [GetAuthToken True])"
proof -
  let ?s = "[''authToken'' \<mapsto> ''tok'']"
  let ?e = "LastError (Some ''The user did not approve access.'')"
  have a: "signOut (demo_identity_env None (Some ?e, None)) ?s =
      (Rejected (VendorError ?e), ?s, [GetAuthToken True])"
    using signOut_outcome [of "demo_identity_env None (Some ?e, None)" ?s]
    by (simp add: demo_identity_env_def)
  have b: "signOut (demo_identity_env None (None, None)) ?s =
      (Resolved (), ?s, [GetAuthToken True])"
    using signOut_outcome [of "demo_identity_env None (None, None)" ?s]
    by (simp add: demo_identity_env_def)
  have c: "signOut (demo_identity_env None (None, Some \<lparr>token = Some ''tok''\<rparr>)) ?s =
      (Resolved (), Map.empty, [GetAuthToken True])"
    using signOut_outcome [of "demo_identity_env None (None, Some \<lparr>token = Some ''tok''\<rparr>)" ?s]
    by (simp add: demo_identity_env_def)
  from a b c show ?thesis by simp
qed

text \<open>
  The promise of \<open>signOut\<close> does not always resolve: when the vendor reports that the
  user did not approve the access, it is rejected.
\<close>

theorem signOut_rejected_counterexample:
  "\<not> is_resolved (fst (signOut
       (demo_identity_env None
          (Some (LastError (Some ''The user did not approve access.'')), None))
       Map.empty))"
  by (simp add: signOut_def demo_identity_env_def)

text \<open>The pieces of \<open>signIn\<close>, one outcome each.\<close>

lemma extractToken_cases:
  "extractToken env None = Inr None \<and>
   extractToken env (Some []) = Inr None \<and>
   (r \<noteq> [] \<and> url_parse env r = Some u \<and> hash u = [] \<longrightarrow>
      extractToken env (Some r) = Inr None) \<and>
   (r \<noteq> [] \<and> url_parse env r = Some u \<and> hash u \<noteq> [] \<longrightarrow>
      extractToken env (Some r) =
        Inr (search_params_get env (drop 1 (hash u)) ''access_token''))"
  by (simp add: extractToken_def)

lemma signIn_launch_error:
  "launchWebAuthFlow env (auth_url env api) interactive = (Some e, r) \<Longrightarrow>
   signIn env api storage interactive =
     (Rejected (VendorError e), storage, [LaunchWebAuthFlow (auth_url env api) interactive])"
  by (simp add: signIn_def)

lemma signIn_no_token:
  "launchWebAuthFlow env (auth_url env api) interactive = (None, r) \<Longrightarrow>
   extractToken env (if truthy r then r else None) = Inr tok \<Longrightarrow> \<not> truthy tok \<Longrightarrow>
   signIn env api storage interactive =
     (Rejected (Error ''Failed to extract token''), storage,
      [LaunchWebAuthFlow (auth_url env api) interactive])"
  by (simp add: signIn_def)

lemma signIn_token_error:
  "launchWebAuthFlow env (auth_url env api) interactive = (None, r) \<Longrightarrow>
   extractToken env (if truthy r then r else None) = Inr tok \<Longrightarrow> truthy tok \<Longrightarrow>
   getAuthToken env False = (Some e, resp) \<Longrightarrow>
   signIn env api storage interactive =
     (Rejected (VendorError e), storage,
      [LaunchWebAuthFlow (auth_url env api) interactive, GetAuthToken False])"
  by (simp add: signIn_def)

lemma signIn_success:
  "launchWebAuthFlow env (auth_url env api) interactive = (None, r) \<Longrightarrow>
   extractToken env (if truthy r then r else None) = Inr tok \<Longrightarrow> truthy tok \<Longrightarrow>
   getAuthToken env False = (None, Some resp) \<Longrightarrow>
   signIn env api storage interactive =
     (Resolved (), storage(''authToken'' \<mapsto> or_else (token resp) []),
      [LaunchWebAuthFlow (auth_url env api) interactive, GetAuthToken False])"
  by (simp add: signIn_def)

text \<open>
  Where \<open>extractToken\<close> returns: \<open>signIn\<close> is rejected when the web-auth flow
  reports an error, when \<open>extractToken\<close> returns no token, and when the token call
  reports an error; in these cases the storage is left as it was. When the token call
  answers with a response it stores the token of the response (the empty string when
  it has none) under \<open>authToken\<close> and resolves. \<open>extractToken\<close> yields \<open>null\<close> for a
  redirect URL that is \<open>null\<close> or has no fragment, and otherwise the parameter
  \<open>access_token\<close> of the fragment without its \<open>#\<close>.
\<close>

lemma signIn_outcomes:
  "(\<forall>e r. launchWebAuthFlow env (auth_url env api) interactive = (Some e, r) \<longrightarrow>
      signIn env api storage interactive =
        (Rejected (VendorError e), storage,
         [LaunchWebAuthFlow (auth_url env api) interactive])) \<and>
   (\<forall>r tok. launchWebAuthFlow env (auth_url env api) interactive = (None, r) \<and>
      extractToken env (if truthy r then r else None) = Inr tok \<and> \<not> truthy tok \<longrightarrow>
      signIn env api storage interactive =
        (Rejected (Error ''Failed to extract token''), storage,
         [LaunchWebAuthFlow (auth_url env api) interactive])) \<and>
   (\<forall>r tok e resp. launchWebAuthFlow env (auth_url env api) interactive = (None, r) \<and>
      extractToken env (if truthy r then r else None) = Inr tok \<and> truthy tok \<and>
      getAuthToken env False = (Some e, resp) \<longrightarrow>
      signIn env api storage interactive =
        (Rejected (VendorError e), storage,
         [LaunchWebAuthFlow (auth_url env api) interactive, GetAuthToken False])) \<and>
   (\<forall>r tok resp. launchWebAuthFlow env (auth_url env api) interactive = (None, r) \<and>
      extractToken env (if truthy r then r else None) = Inr tok \<and> truthy tok \<and>
      getAuthToken env False = (None, Some resp) \<longrightarrow>
      signIn env api storage interactive =
        (Resolved (), storage(''authToken'' \<mapsto> or_else (token resp) []),
         [LaunchWebAuthFlow (auth_url env api) interactive, GetAuthToken False])) \<and>
   extractToken env None = Inr None \<and>
   (\<forall>r u. r \<noteq> [] \<and> url_parse env r = Some u \<and> hash u = [] \<longrightarrow>
      extractToken env (Some r) = Inr None) \<and>
   (\<forall>r u. r \<noteq> [] \<and> url_parse env r = Some u \<and> hash u \<noteq> [] \<longrightarrow>
      extractToken env (Some r) =
        Inr (search_params_get env (drop 1 (hash u)) ''access_token''))"
proof (intro conjI allI impI)
  fix e r
  assume "launchWebAuthFlow env (auth_url env api) interactive = (Some e, r)"
  then show "signIn env api storage interactive =
      (Rejected (VendorError e), storage, [LaunchWebAuthFlow (auth_url env api) interactive])"
    by (rule signIn_launch_error)
next
  fix r tok
  assume "launchWebAuthFlow env (auth_url env api) interactive = (None, r) \<and>
      extractToken env (if truthy r then r else None) = Inr tok \<and> \<not> truthy tok"
  then show "signIn env api storage interactive =
      (Rejected (Error ''Failed to extract token''), storage,
       [LaunchWebAuthFlow (auth_url env api) interactive])"
    by (blast intro: signIn_no_token)
next
  fix r tok e resp
  assume "launchWebAuthFlow env (auth_url env api) interactive = (None, r) \<and>
      extractToken env (if truthy r then r else None) = Inr tok \<and> truthy tok \<and>
      getAuthToken env False = (Some e, resp)"
  then show "signIn env api storage interactive =
      (Rejected (VendorError e), storage,
       [LaunchWebAuthFlow (auth_url env api) interactive, GetAuthToken False])"
    by (blast intro: signIn_token_error)
next
  fix r tok resp
  assume "launchWebAuthFlow env (auth_url env api) interactive = (None, r) \<and>
      extractToken env (if truthy r then r else None) = Inr tok \<and> truthy tok \<and>
      getAuthToken env False = (None, Some resp)"
  then show "signIn env api storage interactive =
      (Resolved (), storage(''authToken'' \<mapsto> or_else (token resp) []),
       [LaunchWebAuthFlow (auth_url env api) interactive, GetAuthToken False])"
    by (blast intro: signIn_success)
next
  show "extractToken env None = Inr None"
    by (simp add: extractToken_cases)
next
  fix r u
  assume "r \<noteq> [] \<and> url_parse env r = Some u \<and> hash u = []"
  then show "extractToken env (Some r) = Inr None"
    using extractToken_cases [of env r u] by simp
next
  fix r u
  assume "r \<noteq> [] \<and> url_parse env r = Some u \<and> hash u \<noteq> []"
  then show "extractToken env (Some r) =
      Inr (search_params_get env (drop 1 (hash u)) ''access_token'')"
    using extractToken_cases [of env r u] by simp
qed

lemma demo_extractToken:
  "extractToken (demo_identity_env red reply) (Some ''https://x.org/#access_token=ya29&a=b'') =
     Inr (Some ''ya29'')"
  by (simp add: extractToken_def demo_identity_env_def demo_url_parse_def Let_def
      demo_search_params_get_def)

lemma demo_extractToken_no_fragment:
  "extractToken (demo_identity_env red reply) (Some ''https://x.org/cb?error=denied'') = Inr None"
  by (simp add: extractToken_def demo_identity_env_def demo_url_parse_def Let_def)

lemma signIn_outcomes_example:
  "signIn (demo_identity_env (Some ''https://x.org/#access_token=ya29&a=b'')
             (None, Some \<lparr>token = Some ''tok''\<rparr>))
     \<lparr>clientId = ''cid'', scopes = [''email'', ''profile'']\<rparr> Map.empty True =
     (Resolved (), [''authToken'' \<mapsto> ''tok''],
      [LaunchWebAuthFlow
         (auth_url (demo_identity_env (Some ''https://x.org/#access_token=ya29&a=b'')
                      (None, Some \<lparr>token = Some ''tok''\<rparr>))
            \<lparr>clientId = ''cid'', scopes = [''email'', ''profile'']\<rparr>) True,
       GetAuthToken False]) \<and>
   fst (signIn (demo_identity_env (Some ''https://x.org/cb?error=denied'') (None, None))
     \<lparr>clientId = ''cid'', scopes = [''email'', ''profile'']\<rparr> Map.empty True) =
     Rejected (Error ''Failed to extract token'')"
proof -
  let ?api = "\<lparr>clientId = ''cid'', scopes = [''email'', ''profile'']\<rparr>"
  let ?ok = "demo_identity_env (Some ''https://x.org/#access_token=ya29&a=b'')
               (None, Some \<lparr>token = Some ''tok''\<rparr>)"
  let ?no = "demo_identity_env (Some ''https://x.org/cb?error=denied'') (None, None)"
  have l1: "launchWebAuthFlow ?ok (auth_url ?ok ?api) True =
      (None, Some ''https://x.org/#access_token=ya29&a=b'')"
    by (simp add: demo_identity_env_def)
  have g1: "getAuthToken ?ok False = (None, Some \<lparr>token = Some ''tok''\<rparr>)"
    by (simp add: demo_identity_env_def)
  have x1: "extractToken ?ok
      (if truthy (Some ''https://x.org/#access_token=ya29&a=b'')
       then Some ''https://x.org/#access_token=ya29&a=b'' else None) = Inr (Some ''ya29'')"
    using demo_extractToken by simp
  have a: "signIn ?ok ?api Map.empty True =
     (Resolved (), [''authToken'' \<mapsto> ''tok''],
      [LaunchWebAuthFlow (auth_url ?ok ?api) True, GetAuthToken False])"
    using signIn_outcomes [of ?ok ?api True Map.empty] l1 g1 x1 by simp
  have l2: "launchWebAuthFlow ?no (auth_url ?no ?api) True =
      (None, Some ''https://x.org/cb?error=denied'')"
    by (simp add: demo_identity_env_def)
  have x2: "extractToken ?no
      (if truthy (Some ''https://x.org/cb?error=denied'')
       then Some ''https://x.org/cb?error=denied'' else None) = Inr None"
    using demo_extractToken_no_fragment by simp
  have b: "signIn ?no ?api Map.empty True =
     (Rejected (Error ''Failed to extract token''), Map.empty,
      [LaunchWebAuthFlow (auth_url ?no ?api) True])"
    using signIn_outcomes [of ?no ?api True Map.empty] l2 x2 by simp
  from a b show ?thesis by simp
qed

text \<open>
  Where \<open>new URL\<close> refuses the redirect URL, \<open>extractToken\<close> throws inside the
  callback of the web-auth flow, which catches nothing: neither \<open>resolve\<close> nor
  \<open>reject\<close> is called. The same holds when the token call passes no response and
  reports no error, \<open>tokenResponse.token\<close> throwing.
\<close>

lemma signIn_unreadable_redirect:
  "launchWebAuthFlow env (auth_url env api) interactive = (None, Some r) \<Longrightarrow> r \<noteq> [] \<Longrightarrow>
   url_parse env r = None \<Longrightarrow>
   signIn env api storage interactive =
     (Pending, storage, [LaunchWebAuthFlow (auth_url env api) interactive])"
  by (simp add: signIn_def extractToken_def)

lemma signIn_no_token_response:
  "launchWebAuthFlow env (auth_url env api) interactive = (None, r) \<Longrightarrow>
   extractToken env (if truthy r then r else None) = Inr tok \<Longrightarrow> truthy tok \<Longrightarrow>
   getAuthToken env False = (None, None) \<Longrightarrow>
   signIn env api storage interactive =
     (Pending, storage,
      [LaunchWebAuthFlow (auth_url env api) interactive, GetAuthToken False])"
  by (simp add: signIn_def)

text \<open>
  C6. \<open>signIn\<close> is to reject whenever no access token can be extracted from the
  redirect URL. It does not for a redirect URL that is not a URL: with the redirect
  \<open>not a url\<close> and no vendor error the promise is left pending, neither rejected nor
  resolved, and nothing is stored.
\<close>

theorem signIn_unreadable_redirect_pending:
  "signIn (demo_identity_env (Some ''not a url'') (None, Some \<lparr>token = Some ''tok''\<rparr>))
     \<lparr>clientId = ''cid'', scopes = [''email'', ''profile'']\<rparr> Map.empty True =
     (Pending, Map.empty,
      [LaunchWebAuthFlow
         (auth_url (demo_identity_env (Some ''not a url'') (None, Some \<lparr>token = Some ''tok''\<rparr>))
            \<lparr>clientId = ''cid'', scopes = [''email'', ''profile'']\<rparr>) True])"
proof -
  let ?api = "\<lparr>clientId = ''cid'', scopes = [''email'', ''profile'']\<rparr>"
  let ?env = "demo_identity_env (Some ''not a url'') (None, Some \<lparr>token = Some ''tok''\<rparr>)"
  have l: "launchWebAuthFlow ?env (auth_url ?env ?api) True = (None, Some ''not a url'')"
    by (simp add: demo_identity_env_def)
  have p: "url_parse ?env ''not a url'' = None"
    by (simp add: demo_identity_env_def demo_url_parse_def Let_def)
  from signIn_unreadable_redirect [OF l _ p] show ?thesis
    by simp
qed


section \<open>Properties of the capability facade\<close>

text \<open>
  C8, as the code has it. In a browser whose \<open>chrome\<close> has neither \<open>sidePanel\<close>
  nor \<open>sidebarAction\<close>, \<open>setOptions\<close> and \<open>open\<close> write a warning on the console,
  resolve and call no vendor function, and \<open>getOptions\<close> resolves with \<open>null\<close> and
  calls no vendor function, writing nothing. \<open>open\<close> also logs and resolves where
  \<open>chrome\<close> itself is undefined.
\<close>

theorem sidePanel_unavailable:
  "sidePanel c = None \<Longrightarrow> sidebarAction c = None \<Longrightarrow>
   sidePanel_setOptions (Some c) options =
     (Resolved (), [ConsoleWarn ''[Browser] sidePanel API not available in this browser''], []) \<and>
   sidePanel_open (Some c) windowId =
     (Resolved (),
      [ConsoleLog ''[Browser] sidePanel.open() called with options:'',
       ConsoleWarn ''[Browser] Cannot open sidebar - API not available''], []) \<and>
   sidePanel_getOptions (Some c) tabId = (Resolved None, [], []) \<and>
   logs_and_noops (sidePanel_setOptions (Some c) options) \<and>
   logs_and_noops (sidePanel_open (Some c) windowId) \<and>
   logs_and_noops (sidePanel_open None windowId)"
  by (simp add: sidePanel_setOptions_def sidePanel_open_def sidePanel_getOptions_def
      logs_and_noops_def)

theorem sidePanel_unavailable_witness:
  "logs_and_noops (sidePanel_setOptions (Some no_panels) \<lparr>enabled = Some True, path = None\<rparr>) \<and>
   logs_and_noops (sidePanel_open (Some no_panels) (Some 7)) \<and>
   sidePanel_getOptions (Some no_panels) (Some 3) = (Resolved None, [], [])"
proof -
  have a: "sidePanel no_panels = None" and b: "sidebarAction no_panels = None"
    by (simp_all add: no_panels_def)
  from sidePanel_unavailable
    [of no_panels "\<lparr>enabled = Some True, path = None\<rparr>" "Some 7" "Some 3", OF a b]
  show ?thesis by blast
qed

text \<open>
  \<open>getOptions\<close> does not log: in a browser with neither panel API it resolves with
  \<open>null\<close> and leaves the console empty.
\<close>

theorem getOptions_silent_counterexample:
  "\<not> logs_and_noops (sidePanel_getOptions (Some no_panels) None)"
  by (simp add: sidePanel_getOptions_def logs_and_noops_def no_panels_def)

text \<open>The extension API does not succeed: it is absent, it throws or it reports an error.\<close>

lemma chrome_create_fails_iff:
  "fst (chrome_create env i opts st) = None \<longleftrightarrow>
     (case Option.bind (chrome_api env) cn_create of
        None \<Rightarrow> True
      | Some f \<Rightarrow> \<forall>notifId. fst (f i opts (world st)) \<noteq> CallsBack None notifId)"
  by (auto simp: chrome_create_def split: option.splits prod.splits vendor_reply.splits)

lemma chrome_create_table:
  "webNotifications (snd (chrome_create env i opts st)) = webNotifications st"
  by (auto simp: chrome_create_def log_entry_def
      split: option.splits prod.splits vendor_reply.splits)

text \<open>
  Without the extension API \<open>checkPermission\<close> reads \<open>Notification.permission\<close>:
  nothing granted, nothing stored.
\<close>

lemma create_with_page_fallback:
  assumes "chrome_create env i opts st = (None, st1)"
    and "chrome_api env = None"
    and "\<not> web_grants env (world st1)"
  shows "\<exists>st'. create_with env i opts st = Some (Resolved i, st') \<and>
           webNotifications st' = webNotifications st1"
  using assms
  by (subst create_with.simps)
     (auto simp: web_grants_def checkPermission_def not_available_def log_entry_def
       split: option.splits prod.splits)

text \<open>
  With the extension API \<open>checkPermission\<close> answers \<open>granted\<close> whatever
  \<open>Notification.permission\<close> is: after a failure of the extension's \<open>create\<close> a web
  notification is made and stored where the page has the global \<open>Notification\<close>.
\<close>

lemma create_with_extension_fallback:
  assumes "chrome_create env i opts st = (None, st1)"
    and "chrome_api env = Some c"
  shows "create_with env i opts st =
           Some (Resolved i,
             (case web_api env of
                None \<Rightarrow> not_available st1
              | Some api \<Rightarrow> store_handle i (new_Notification i opts) st1))"
  using assms
  by (subst create_with.simps) (simp add: checkPermission_def split: option.splits)

lemma create_with_fallback:
  assumes "chrome_create env i opts st = (None, st1)"
    and "\<not> web_grants env (world st1)"
  shows "\<exists>st'. create_with env i opts st = Some (Resolved i, st') \<and>
           (chrome_api env = None \<longrightarrow> webNotifications st' = webNotifications st1)"
proof (cases "chrome_api env")
  case None
  with create_with_page_fallback [OF assms(1) None assms(2)] show ?thesis
    by blast
next
  case (Some c)
  with create_with_extension_fallback [OF assms(1) Some] show ?thesis
    by simp
qed

text \<open>
  C9. The identifier of \<open>create\<close> is its first argument when that is a string, and
  \<open>notif-\<close> followed by the current time otherwise. When the extension API does not
  succeed and the web capability does not grant permission, \<open>create\<close> returns and its
  promise resolves with that identifier; without the extension API the table of
  handles is then as before.
\<close>

theorem create_resolves_with_identifier:
  "notification_id env (WithId i opts) w = i \<and>
   notification_id env (OptionsOnly opts) w = ''notif-'' @ string_of_nat (date_now env w) \<and>
   (fst (chrome_create env (notification_id env args (world st)) (args_options args) st) = None \<and>
    \<not> web_grants env
        (world (snd (chrome_create env (notification_id env args (world st))
                       (args_options args) st)))
    \<longrightarrow> (\<exists>st'. create env args st = Some (Resolved (notification_id env args (world st)), st') \<and>
               (chrome_api env = None \<longrightarrow> webNotifications st' = webNotifications st)))"
proof (intro conjI impI)
  show "notification_id env (WithId i opts) w = i"
    by (simp add: notification_id_def)
  show "notification_id env (OptionsOnly opts) w = ''notif-'' @ string_of_nat (date_now env w)"
    by (simp add: notification_id_def)
next
  let ?i = "notification_id env args (world st)"
  let ?r = "chrome_create env ?i (args_options args) st"
  assume h: "fst ?r = None \<and> \<not> web_grants env (world (snd ?r))"
  then have "?r = (None, snd ?r)"
    by (metis prod.collapse)
  with h have "\<exists>st'. create_with env ?i (args_options args) st = Some (Resolved ?i, st') \<and>
      (chrome_api env = None \<longrightarrow> webNotifications st' = webNotifications (snd ?r))"
    by (intro create_with_fallback) simp_all
  then show "\<exists>st'. create env args st = Some (Resolved ?i, st') \<and>
      (chrome_api env = None \<longrightarrow> webNotifications st' = webNotifications st)"
    by (auto simp: create_def chrome_create_table)
qed

theorem create_resolves_with_identifier_witness:
  "(\<exists>st'. create demo_notif_env (OptionsOnly demo_options) (demo_notif_state ''default'' None) =
      Some (Resolved ''notif-1700'', st') \<and> webNotifications st' = None) \<and>
   (\<exists>st'. create demo_notif_env (WithId ''n1'' demo_options) (demo_notif_state ''denied'' None) =
      Some (Resolved ''n1'', st') \<and> webNotifications st' = None) \<and>
   (\<exists>st'. create demo_failing_extension_env (WithId ''n1'' demo_options)
      (demo_notif_state ''denied'' None) = Some (Resolved ''n1'', st'))"
proof -
  have n: "string_of_nat 1700 = ''1700''"
    by simp
  have i1: "notification_id demo_notif_env (OptionsOnly demo_options) w = ''notif-1700''" for w
    by (simp add: notification_id_def demo_notif_env_def n del: string_of_nat.simps)
  have i2: "notification_id env (WithId ''n1'' demo_options) w = ''n1''"
    for w and env :: "string notif_env"
    by (simp add: notification_id_def)
  have c: "chrome_create demo_notif_env j opts st = (None, st)" for j opts st
    by (simp add: chrome_create_def demo_notif_env_def)
  have e: "chrome_api demo_notif_env = None"
    by (simp add: demo_notif_env_def)
  have g1: "\<not> web_grants demo_notif_env ''default''"
    by (simp add: web_grants_def demo_notif_env_def)
  have g2: "\<not> web_grants demo_notif_env ''denied''"
    by (simp add: web_grants_def demo_notif_env_def)
  have a: "\<exists>st'. create demo_notif_env (OptionsOnly demo_options)
        (demo_notif_state ''default'' None) = Some (Resolved ''notif-1700'', st') \<and>
      webNotifications st' = None"
    using create_resolves_with_identifier
      [of demo_notif_env _ _ _ "OptionsOnly demo_options" "demo_notif_state ''default'' None"]
      g1
    by (simp add: c e i1 demo_notif_state_def)
  have b: "\<exists>st'. create demo_notif_env (WithId ''n1'' demo_options)
        (demo_notif_state ''denied'' None) = Some (Resolved ''n1'', st') \<and>
      webNotifications st' = None"
    using create_resolves_with_identifier
      [of demo_notif_env _ _ _ "WithId ''n1'' demo_options" "demo_notif_state ''denied'' None"]
      g2
    by (simp add: c e i2 demo_notif_state_def)
  have f: "fst (chrome_create demo_failing_extension_env j opts st) = None" for j opts st
    by (simp add: chrome_create_def demo_failing_extension_env_def demo_notif_env_def)
  have w: "world (snd (chrome_create demo_failing_extension_env j opts st)) = world st"
    for j opts st
    by (simp add: chrome_create_def demo_failing_extension_env_def demo_notif_env_def
        log_entry_def)
  have g3: "\<not> web_grants demo_failing_extension_env ''denied''"
    by (simp add: web_grants_def demo_failing_extension_env_def demo_notif_env_def)
  have "\<exists>st'. create demo_failing_extension_env (WithId ''n1'' demo_options)
        (demo_notif_state ''denied'' None) = Some (Resolved ''n1'', st') \<and>
      (chrome_api demo_failing_extension_env = None \<longrightarrow>
         webNotifications st' = webNotifications (demo_notif_state ''denied'' None))"
    using create_resolves_with_identifier
      [of demo_failing_extension_env _ _ _ "WithId ''n1'' demo_options"
        "demo_notif_state ''denied'' None"]
      g3
    by (simp add: f w i2 demo_notif_state_def)
  then have d: "\<exists>st'. create demo_failing_extension_env (WithId ''n1'' demo_options)
        (demo_notif_state ''denied'' None) = Some (Resolved ''n1'', st')"
    by blast
  from a b d show ?thesis by simp
qed

text \<open>
  \<open>clear\<close> where the extension API offers no \<open>clear\<close>. A stored handle is closed
  and its key deleted; a name the table does not know gives \<open>false\<close> and changes
  nothing; a name that the table inherits is taken for a handle.
\<close>

lemma table_get_plain:
  "proto t = None \<Longrightarrow>
   table_get member t k =
     (case own t k of
        Some n \<Rightarrow> Handle n
      | None \<Rightarrow> if k \<in> set object_prototype_members then NotAHandle else Absent)"
  by (simp add: table_get_def object_prototype_members_def split: option.splits)

lemma clear_stored_handle:
  "Option.bind (chrome_api env) cn_clear = None \<Longrightarrow> webNotifications st = Some t \<Longrightarrow>
   own t i = Some n \<Longrightarrow>
   clear env i st =
     (Resolved True,
      st\<lparr>webNotifications := Some (table_delete t i), closed := closed st @ [n]\<rparr>) \<and>
   own (table_delete t i) i = None"
  by (simp add: clear_def clear_web_def table_get_def table_delete_def)

lemma clear_unknown_name:
  "Option.bind (chrome_api env) cn_clear = None \<Longrightarrow>
   webNotifications st = None \<or>
     (\<exists>t. webNotifications st = Some t \<and> table_get (handle_member env) t i = Absent) \<Longrightarrow>
   clear env i st = (Resolved False, st)"
  by (auto simp: clear_def clear_web_def)

lemma clear_inherited_name:
  "Option.bind (chrome_api env) cn_clear = None \<Longrightarrow> webNotifications st = Some t \<Longrightarrow>
   proto t = None \<Longrightarrow> own t i = None \<Longrightarrow> i \<in> set object_prototype_members \<Longrightarrow>
   clear env i st = (Rejected (TypeError ''close is not a function''), st)"
  by (simp add: clear_def clear_web_def table_get_plain)

text \<open>
  C10. \<open>clear\<close> is to resolve with \<open>false\<close>, the table unchanged, whenever neither
  the extension API nor a stored handle for the identifier exists. It does not for an
  identifier that every object inherits: on a page without the extension API, after
  the notification \<open>n1\<close> was made through the web fallback, \<open>clear\<close> of
  \<open>constructor\<close>, for which no handle was stored, is rejected.
\<close>

theorem clear_inherited_member_rejects:
  "create demo_notif_env (WithId ''n1'' demo_options) (demo_notif_state ''granted'' None) =
     Some (Resolved ''n1'',
       demo_notif_state ''granted''
         (Some (table_set empty_table ''n1'' (new_Notification ''n1'' demo_options)))) \<and>
   own (table_set empty_table ''n1'' (new_Notification ''n1'' demo_options)) ''constructor'' =
     None \<and>
   clear demo_notif_env ''constructor''
     (demo_notif_state ''granted''
        (Some (table_set empty_table ''n1'' (new_Notification ''n1'' demo_options)))) =
     (Rejected (TypeError ''close is not a function''),
      demo_notif_state ''granted''
        (Some (table_set empty_table ''n1'' (new_Notification ''n1'' demo_options))))"
proof -
  let ?t = "table_set empty_table ''n1'' (new_Notification ''n1'' demo_options)"
  let ?st = "demo_notif_state ''granted'' (Some ?t)"
  have c: "chrome_create demo_notif_env j opts st = (None, st)" for j opts st
    by (simp add: chrome_create_def demo_notif_env_def)
  have p: "checkPermission demo_notif_env ''granted'' = ''granted''"
    by (simp add: checkPermission_def demo_notif_env_def)
  have g: "web_api demo_notif_env \<noteq> None"
    by (simp add: demo_notif_env_def)
  have a: "create demo_notif_env (WithId ''n1'' demo_options)
      (demo_notif_state ''granted'' None) = Some (Resolved ''n1'', ?st)"
    unfolding create_def using g
    by (subst create_with.simps)
       (auto simp: c p notification_id_def store_handle_def demo_notif_state_def)
  have o: "own ?t ''constructor'' = None" and q: "proto ?t = None"
    by (simp_all add: table_set_def empty_table_def)
  have e: "Option.bind (chrome_api demo_notif_env) cn_clear = None"
    by (simp add: demo_notif_env_def)
  have w: "webNotifications ?st = Some ?t"
    by (simp add: demo_notif_state_def)
  have m: "''constructor'' \<in> set object_prototype_members"
    by (simp add: object_prototype_members_def)
  from a o clear_inherited_name [OF e w q o m] show ?thesis
    by simp
qed

end
